theory Spec2Isabelle
  imports Complex_Main "HOL-Library.AList" "HOL-Library.Multiset"
    "HOL-Library.Char_ord" "HOL-Library.List_Lexorder"
begin

section \<open>The ledger tables\<close>

text \<open>
  The application is a set of page handlers that read and write four tables of a relational
  store: \<open>invoices\<close>, \<open>payments\<close>, \<open>allocations\<close> and \<open>invoice_audit\<close>
  (supabase/schema.sql). The store is modelled as a record of row lists, and every handler
  as a function from the store to a result and the store after the handler's own writes.
  The schema file declares no trigger and no stored procedure body, so a write changes
  exactly the rows the statement names.

  Identifiers are uuid strings. Monetary columns are \<open>numeric\<close> in the store and
  JavaScript numbers in the handlers; they are modelled as exact rationals, so sums carry no
  floating rounding. Dates are day numbers (the local midnight of a \<open>YYYY-MM-DD\<close>
  string, counted in whole days).
\<close>

type_synonym uuid = string
type_synonym money = rat
type_synonym date = int
type_synonym timestamp = nat

record invoice =
  inv_id :: uuid
  inv_number :: "string option"
  hotel_id :: uuid
  company_id :: "uuid option"
  client_id :: "uuid option"
  confirmation_no :: "string option"
  case_no :: "string option"
  issue_date :: date
  due_date :: date
  check_in :: "date option"
  check_out :: "date option"
  rate_night :: "money option"
  subtotal :: money
  tax :: money
  status :: string
  balance :: money
  inv_deleted_at :: "timestamp option"

text \<open>
  \<open>total\<close> is a generated column of the store (\<open>subtotal + tax\<close>): the handlers never
  write it and change it only through \<open>subtotal\<close> and \<open>tax\<close>.
\<close>

definition total :: "'a invoice_scheme \<Rightarrow> money" where
  "total i = subtotal i + tax i"

datatype pay_method = check | ach | card | other

record payment =
  pay_id :: uuid
  p_method :: pay_method
  reference :: string
  pay_amount :: money
  received_date :: date
  check_date :: "date option"

record allocation =
  payment_id :: uuid
  invoice_id :: uuid
  amount :: money
  al_deleted_at :: "timestamp option"

record audit_event =
  p_invoice_id :: uuid
  p_action :: string
  p_note :: "string option"
  p_details :: "(string \<times> money) list"

record db =
  invoices :: "invoice list"
  payments :: "payment list"
  allocations :: "allocation list"
  invoice_audit :: "audit_event list"

text \<open>
  What a handler reports: \<open>setErr\<close> / \<open>alert\<close> with a message is an error, \<open>setMsg\<close>
  or a redirect is a notice, and a dismissed dialog leaves silently.
\<close>

datatype error =
    InvalidNumber
  | DbError string
  | UpdateNotApplied
  | VoidNotApplied
  | AllocatedMoreThanPayment
  | PaymentInsertFailed
  | AllocationFailed string
  | ValidationError "(string \<times> string) list"

datatype notice =
  Cancelled | TotalUpdated | InvoiceVoided | PaymentDeleted | PaymentSaved | InvoiceCreated

text \<open>A JavaScript number obtained with \<open>Number(text)\<close>: finite, or not (NaN, infinities).\<close>

datatype jsnum = NotFinite | Fin rat

section \<open>Audit trail\<close>

text \<open>
  Modelled from the spec: the stored procedure \<open>log_invoice_event\<close> is called by the
  handlers but its body is not in the source. The spec's Audit Trail says
  "Record(invoice_id, action, detail, actor) -- append-only insert"; the model appends one
  row holding the arguments of the call. The handlers ignore the call's result.
\<close>

definition log_invoice_event ::
  "uuid \<Rightarrow> string \<Rightarrow> string option \<Rightarrow> (string \<times> money) list \<Rightarrow> db \<Rightarrow> db" where
  "log_invoice_event iid action note details d =
     d\<lparr>invoice_audit := invoice_audit d @
        [\<lparr>p_invoice_id = iid, p_action = action, p_note = note, p_details = details\<rparr>]\<rparr>"

section \<open>Paid-to-date\<close>

text \<open>
  The spec's paid-to-date of an invoice: the sum of the amounts of its active allocations
  (\<open>deleted_at\<close> null); the invoices page computes it in \<open>allocatedSum\<close> and again
  inline in \<open>updateTotal\<close>.
\<close>

definition allocatedSum :: "db \<Rightarrow> uuid \<Rightarrow> money" where
  "allocatedSum d invoiceId =
     sum_list (map amount
       (filter (\<lambda>a. invoice_id a = invoiceId \<and> al_deleted_at a = None) (allocations d)))"

text \<open>The part of a payment already applied, and the room left to allocate.\<close>

definition payment_allocated :: "db \<Rightarrow> uuid \<Rightarrow> money" where
  "payment_allocated d pid =
     sum_list (map amount
       (filter (\<lambda>a. payment_id a = pid \<and> al_deleted_at a = None) (allocations d)))"

definition payment_room :: "db \<Rightarrow> payment \<Rightarrow> money" where
  "payment_room d p = pay_amount p - payment_allocated d (pay_id p)"

section \<open>Invoices page: updateTotal and voidInvoice\<close>

text \<open>
  \<open>updateTotal(row)\<close>: \<open>ans\<close> is the prompt's answer (\<open>None\<close> when dismissed) after
  \<open>Number(ans)\<close>; \<open>allocErr\<close> and \<open>error\<close> are the store's answers to the
  allocation query and to the update. \<open>row\<close> is the listed row the button belongs to.
\<close>

definition updateTotal ::
  "invoice \<Rightarrow> jsnum option \<Rightarrow> string option \<Rightarrow> string option \<Rightarrow> db \<Rightarrow> (error + notice) \<times> db" where
  "updateTotal row ans allocErr error d =
    (case ans of
       None \<Rightarrow> (Inr Cancelled, d)
     | Some NotFinite \<Rightarrow> (Inl InvalidNumber, d)
     | Some (Fin newTotal) \<Rightarrow>
        if newTotal < 0 then (Inl InvalidNumber, d)
        else (case allocErr of
           Some m \<Rightarrow> (Inl (DbError m), d)
         | None \<Rightarrow>
            let alloc = filter (\<lambda>a. invoice_id a = inv_id row \<and> al_deleted_at a = None)
                          (allocations d);
                paid = sum_list (map amount alloc);
                newBalance = max 0 (newTotal - paid);
                newStatus =
                  (if newTotal = 0 then ''void''
                   else if paid \<le> 0 then ''open''
                   else if paid < newTotal then ''partial''
                   else ''paid'')
            in (case error of
                 Some m \<Rightarrow> (Inl (DbError m), d)
               | None \<Rightarrow>
                  let hit = (\<lambda>i. inv_id i = inv_id row \<and> inv_deleted_at i = None);
                      updated = filter hit (invoices d)
                  in if updated = [] then (Inl UpdateNotApplied, d)
                     else (Inr TotalUpdated,
                       log_invoice_event (inv_id row) ''update_total'' None
                         [(''old_total'', total row), (''new_total'', newTotal)]
                         (d\<lparr>invoices := map (\<lambda>i. if hit i
                               then i\<lparr>subtotal := newTotal, tax := 0,
                                      balance := newBalance, status := newStatus\<rparr>
                               else i) (invoices d)\<rparr>)))))"

text \<open>
  \<open>voidInvoice(row)\<close>: \<open>reason\<close> is the prompt's answer (\<open>None\<close> when dismissed);
  \<open>delErr\<close> and \<open>error\<close> are the store's answers to the allocation delete and to
  the update. The delete is a hard delete of every allocation row of the invoice; a failure
  after it leaves the rows deleted.
\<close>

definition voidInvoice ::
  "invoice \<Rightarrow> string option \<Rightarrow> string option \<Rightarrow> string option \<Rightarrow> db \<Rightarrow> (error + notice) \<times> db" where
  "voidInvoice row reason delErr error d =
    (case reason of
       None \<Rightarrow> (Inr Cancelled, d)
     | Some r \<Rightarrow>
        (case delErr of
           Some m \<Rightarrow> (Inl (DbError m), d)
         | None \<Rightarrow>
            let d1 = d\<lparr>allocations := filter (\<lambda>a. invoice_id a \<noteq> inv_id row) (allocations d)\<rparr>
            in (case error of
                 Some m \<Rightarrow> (Inl (DbError m), d1)
               | None \<Rightarrow>
                  let hit = (\<lambda>i. inv_id i = inv_id row \<and> inv_deleted_at i = None);
                      updated = filter hit (invoices d1)
                  in if updated = [] then (Inl VoidNotApplied, d1)
                     else (Inr InvoiceVoided,
                       log_invoice_event (inv_id row) ''void_invoice''
                         (if r = [] then None else Some r) []
                         (d1\<lparr>invoices := map (\<lambda>i. if hit i
                                then i\<lparr>status := ''void'', subtotal := 0, tax := 0, balance := 0\<rparr>
                                else i) (invoices d1)\<rparr>)))))"

section \<open>Payments page: deletePayment\<close>

text \<open>
  \<open>deletePayment(row)\<close>: \<open>confirmed\<close> is the answer to the dialog "Delete payment ...?
  This will also delete its allocations."; \<open>aErr\<close> and \<open>pErr\<close> are the store's
  answers to the two deletes. The handler writes no invoice row.
\<close>

definition deletePayment ::
  "payment \<Rightarrow> bool \<Rightarrow> string option \<Rightarrow> string option \<Rightarrow> db \<Rightarrow> (error + notice) \<times> db" where
  "deletePayment row confirmed aErr pErr d =
    (if \<not> confirmed then (Inr Cancelled, d)
     else (case aErr of
        Some m \<Rightarrow> (Inl (DbError m), d)
      | None \<Rightarrow>
         let d1 = d\<lparr>allocations := filter (\<lambda>a. payment_id a \<noteq> pay_id row) (allocations d)\<rparr>
         in (case pErr of
              Some m \<Rightarrow> (Inl (DbError m), d1)
            | None \<Rightarrow>
               (Inr PaymentDeleted,
                d1\<lparr>payments := filter (\<lambda>p. pay_id p \<noteq> pay_id row) (payments d1)\<rparr>))))"

section \<open>Record-payment page\<close>

text \<open>
  The page lists the live invoices that are not paid and have a positive stored balance
  (optionally of one hotel; the store returns them by check-in date, which nothing below
  depends on), and keeps the amounts typed against them in \<open>alloc\<close>, an object from
  invoice id to number. An object keeps its keys in insertion order, so it is an
  association list.
\<close>

definition loadInvoices :: "uuid option \<Rightarrow> db \<Rightarrow> invoice list" where
  "loadInvoices hotelId d =
     filter (\<lambda>i. inv_deleted_at i = None \<and> status i \<noteq> ''paid'' \<and> balance i > 0 \<and>
                 (case hotelId of None \<Rightarrow> True | Some h \<Rightarrow> hotel_id i = h))
       (invoices d)"

definition byId :: "invoice list \<Rightarrow> uuid \<Rightarrow> invoice option" where
  "byId invs = fold (\<lambda>i m. m(inv_id i \<mapsto> i)) invs Map.empty"

definition allocatedTotal :: "(uuid \<times> money) list \<Rightarrow> money" where
  "allocatedTotal alloc = fold (\<lambda>v s. s + v) (map snd alloc) 0"

definition remaining :: "money \<Rightarrow> (uuid \<times> money) list \<Rightarrow> money" where
  "remaining watchAmount alloc = max 0 (watchAmount - allocatedTotal alloc)"

definition setAllocFor ::
  "invoice list \<Rightarrow> uuid \<Rightarrow> jsnum \<Rightarrow> (uuid \<times> money) list \<Rightarrow> (uuid \<times> money) list" where
  "setAllocFor invs iid v alloc =
    (let num = (case v of Fin raw \<Rightarrow> raw | NotFinite \<Rightarrow> 0);
         bal = (case byId invs iid of Some i \<Rightarrow> balance i | None \<Rightarrow> 0);
         num = (if num < 0 then 0 else num);
         num = (if num > bal then bal else num)
     in AList.update iid num alloc)"

text \<open>\<open>Number(x.toFixed(2))\<close>: the nearest number of cents, the larger one at a tie.\<close>

definition toFixed2 :: "money \<Rightarrow> money" where
  "toFixed2 x = of_int (round (x * 100)) / 100"

definition allocateRemainingTo ::
  "invoice list \<Rightarrow> money \<Rightarrow> uuid \<Rightarrow> (uuid \<times> money) list \<Rightarrow> (uuid \<times> money) list" where
  "allocateRemainingTo invs watchAmount iid alloc =
    (let bal = (case byId invs iid of Some i \<Rightarrow> balance i | None \<Rightarrow> 0);
         current = (case map_of alloc iid of Some c \<Rightarrow> c | None \<Rightarrow> 0);
         room = max 0 (bal - current)
     in if room \<le> 0 \<or> remaining watchAmount alloc \<le> 0 then alloc
        else let add = min room (remaining watchAmount alloc)
             in AList.update iid (toFixed2 (current + add)) alloc)"

record pay_form =
  f_method :: pay_method
  f_reference :: "string option"
  f_amount :: money
  f_received_date :: date
  f_check_date :: "date option"

definition isSpace :: "char \<Rightarrow> bool" where
  "isSpace c = (c \<in> set [CHR '' '', CHR 0x09, CHR 0x0A, CHR 0x0B, CHR 0x0C, CHR 0x0D])"

definition trim :: "string \<Rightarrow> string" where
  "trim s = rev (dropWhile isSpace (rev (dropWhile isSpace s)))"

definition isDigit :: "char \<Rightarrow> bool" where
  "isDigit c = (CHR ''0'' \<le> c \<and> c \<le> CHR ''9'')"

text \<open>The test \<open>/^\d{4}$/\<close>.\<close>

definition fourDigits :: "string \<Rightarrow> bool" where
  "fourDigits s = (length s = 4 \<and> list_all isDigit s)"

text \<open>
  Modelled from the spec: the stored procedure \<open>api_insert_payment\<close> is called by
  \<open>onSubmit\<close> but its body is not in the source. The spec's Payment is "created
  standalone (not tied to any invoice at creation time)"; the model inserts one payment row
  with the arguments of the call under the id the store hands back.
\<close>

definition api_insert_payment :: "pay_form \<Rightarrow> uuid \<Rightarrow> db \<Rightarrow> db" where
  "api_insert_payment v pid d =
     d\<lparr>payments := payments d @
        [\<lparr>pay_id = pid, p_method = f_method v,
          reference = (case f_reference v of None \<Rightarrow> [] | Some r \<Rightarrow> r),
          pay_amount = f_amount v, received_date = f_received_date v,
          check_date = f_check_date v\<rparr>]\<rparr>"

text \<open>
  \<open>onSubmit(values)\<close> of the record-payment form. \<open>confirmed\<close> is the answer to the
  dialog shown for a check without reference or a card reference that is not four digits;
  \<open>rpc\<close> is the answer of \<open>api_insert_payment\<close> (\<open>None\<close>: an error or no id);
  \<open>aErr\<close> is the store's answer to the allocation insert, one statement for all rows.
\<close>

definition onSubmit ::
  "pay_form \<Rightarrow> (uuid \<times> money) list \<Rightarrow> bool \<Rightarrow> uuid option \<Rightarrow> string option \<Rightarrow> db
     \<Rightarrow> (error + notice) \<times> db" where
  "onSubmit values alloc confirmed rpc aErr d =
    (let ref = (case f_reference values of None \<Rightarrow> [] | Some r \<Rightarrow> r) in
     if allocatedTotal alloc > f_amount values + 1 / 1000000
       then (Inl AllocatedMoreThanPayment, d)
     else if f_method values = check \<and> trim ref = [] \<and> \<not> confirmed
       then (Inr Cancelled, d)
     else if f_method values = card \<and> ref \<noteq> [] \<and> \<not> fourDigits (trim ref) \<and> \<not> confirmed
       then (Inr Cancelled, d)
     else (case rpc of
        None \<Rightarrow> (Inl PaymentInsertFailed, d)
      | Some newPaymentId \<Rightarrow>
         let d1 = api_insert_payment values newPaymentId d;
             rows = filter (\<lambda>r. amount r > 0)
                      (map (\<lambda>(iid, amt). \<lparr>payment_id = newPaymentId, invoice_id = iid,
                                           amount = amt, al_deleted_at = None\<rparr>) alloc)
         in if rows \<noteq> []
            then (case aErr of
                    Some m \<Rightarrow> (Inl (AllocationFailed m), d1)
                  | None \<Rightarrow> (Inr PaymentSaved, d1\<lparr>allocations := allocations d1 @ rows\<rparr>))
            else (Inr PaymentSaved, d1)))"

section \<open>New-invoice page\<close>

text \<open>
  A date field of the form holds text: empty, text that \<open>new Date\<close> cannot read, or a
  \<open>YYYY-MM-DD\<close> date.
\<close>

datatype date_text = Blank | Unparsable | Ymd date

record invoice_form =
  v_hotel_id :: string
  v_company_id :: string
  v_client_id :: string
  v_confirmation_no :: "string option"
  v_number :: "string option"
  v_case_no :: "string option"
  v_issue_date :: date_text
  v_due_date :: date_text
  v_check_in :: date_text
  v_check_out :: date_text
  v_rate_night :: jsnum

text \<open>
  The zod \<open>schema\<close> of the form, as the list of its issues (field, message) in field
  order; the empty list means the values are accepted. \<open>uuid\<close> is the validation
  library's test for a uuid string.
\<close>

definition schema :: "(string \<Rightarrow> bool) \<Rightarrow> invoice_form \<Rightarrow> (string \<times> string) list" where
  "schema uuid v =
     (if uuid (v_hotel_id v) then [] else [(''hotel_id'', ''Pick a hotel'')]) @
     (if uuid (v_company_id v) then [] else [(''company_id'', ''Pick a company'')]) @
     (if uuid (v_client_id v) then [] else [(''client_id'', ''Pick a client'')]) @
     (if v_issue_date v = Blank then [(''issue_date'', ''Issue date required'')] else []) @
     (if v_due_date v = Blank then [(''due_date'', ''Due date required'')] else []) @
     (if v_check_in v = Blank then [(''check_in'', ''Check-in required'')] else []) @
     (if v_check_out v = Blank then [(''check_out'', ''Check-out required'')] else []) @
     (case v_rate_night v of
        Fin r \<Rightarrow> if r \<ge> 0 then [] else [(''rate_night'', ''Rate must be a number >= 0'')]
      | NotFinite \<Rightarrow> [(''rate_night'', ''Rate must be a number >= 0'')])"

text \<open>
  \<open>daysBetween\<close>: the milliseconds between the two local midnights, divided by the
  milliseconds of a day, rounded up and clamped at 0. Midnights are taken a whole number of
  24-hour days apart.
\<close>

definition daysBetween :: "date_text \<Rightarrow> date_text \<Rightarrow> int" where
  "daysBetween startYMD endYMD =
    (case (startYMD, endYMD) of
       (Blank, _) \<Rightarrow> 0
     | (_, Blank) \<Rightarrow> 0
     | (Ymd start, Ymd end) \<Rightarrow>
         let ms = (end - start) * 86400000;
             n = \<lceil>(of_int ms :: rat) / (1000 * 60 * 60 * 24)\<rceil>
         in max 0 n
     | _ \<Rightarrow> 0)"

definition previewTotal :: "int \<Rightarrow> jsnum \<Rightarrow> money" where
  "previewTotal nights wRateNight =
    (let rate = (case wRateNight of Fin r \<Rightarrow> r | NotFinite \<Rightarrow> 0)
     in max 0 (of_int nights * rate))"

definition trimOrNull :: "string option \<Rightarrow> string option" where
  "trimOrNull s = (case s of None \<Rightarrow> None
                   | Some t \<Rightarrow> if trim t = [] then None else Some (trim t))"

text \<open>
  \<open>onSubmit(values)\<close> of the new-invoice form builds the \<open>row\<close> to insert and sends
  it: \<open>new_id\<close> is the id the store gives the row and \<open>error\<close> the store's answer
  to the insert. The date columns of the store accept dates only.
\<close>

definition invoiceRow :: "invoice_form \<Rightarrow> uuid \<Rightarrow> date \<Rightarrow> date \<Rightarrow> date \<Rightarrow> date \<Rightarrow> invoice" where
  "invoiceRow values new_id issue due cin cout =
    (let nights = daysBetween (v_check_in values) (v_check_out values);
         subtotal' = max 0 (previewTotal nights (v_rate_night values));
         tax' = 0;
         balance' = subtotal';
         status' = ''open''
     in \<lparr>inv_id = new_id,
         inv_number = trimOrNull (v_number values),
         hotel_id = v_hotel_id values,
         company_id = Some (v_company_id values),
         client_id = Some (v_client_id values),
         confirmation_no = trimOrNull (v_confirmation_no values),
         case_no = trimOrNull (v_case_no values),
         issue_date = issue, due_date = due,
         check_in = Some cin, check_out = Some cout,
         rate_night = Some (case v_rate_night values of Fin r \<Rightarrow> r | NotFinite \<Rightarrow> 0),
         subtotal = subtotal', tax = tax', status = status', balance = balance',
         inv_deleted_at = None\<rparr>)"

definition onSubmit_invoice ::
  "invoice_form \<Rightarrow> uuid \<Rightarrow> string option \<Rightarrow> db \<Rightarrow> (error + notice) \<times> db" where
  "onSubmit_invoice values new_id error d =
    (case (v_issue_date values, v_due_date values, v_check_in values, v_check_out values) of
       (Ymd issue, Ymd due, Ymd cin, Ymd cout) \<Rightarrow>
         (case error of
            Some m \<Rightarrow> (Inl (DbError m), d)
          | None \<Rightarrow>
             (Inr InvoiceCreated,
              d\<lparr>invoices := invoices d @ [invoiceRow values new_id issue due cin cout]\<rparr>))
     | _ \<Rightarrow> (Inl (DbError ''invalid input syntax for type date''), d))"

text \<open>
  \<open>handleSubmit(onSubmit)\<close> with the zod resolver: the handler runs only on values the
  schema accepts; otherwise the issues are shown and nothing is sent to the store.
\<close>

definition handleSubmit ::
  "(string \<Rightarrow> bool) \<Rightarrow> invoice_form \<Rightarrow> uuid \<Rightarrow> string option \<Rightarrow> db \<Rightarrow> (error + notice) \<times> db" where
  "handleSubmit uuid values new_id error d =
    (case schema uuid values of
       [] \<Rightarrow> onSubmit_invoice values new_id error d
     | issues \<Rightarrow> (Inl (ValidationError issues), d))"

section \<open>Aging report page\<close>

record detail =
  d_id :: uuid
  d_number :: string
  d_due_date :: "date option"
  d_balance :: money
  bucket :: string


record invoiceMeta =
  m_id :: uuid
  m_hotel_id :: "uuid option"
  company_name :: "string option"




text \<open>The rows left after the membership guard and the hotel filter.\<close>

definition filtered ::
  "detail list \<Rightarrow> (uuid \<Rightarrow> invoiceMeta option) \<Rightarrow> uuid option \<Rightarrow> uuid list \<Rightarrow> detail list" where
  "filtered details meta hotelId myHotelIds =
    (let hotelOf = (\<lambda>r. case meta (d_id r) of None \<Rightarrow> None | Some m \<Rightarrow> m_hotel_id m);
         base = details;
         base = (if myHotelIds \<noteq> []
                 then filter (\<lambda>r. (case hotelOf r of None \<Rightarrow> [] | Some h \<Rightarrow> h) \<in> set myHotelIds) base
                 else base);
         base = (case hotelId of None \<Rightarrow> base
                 | Some h \<Rightarrow> filter (\<lambda>r. hotelOf r = Some h) base)
     in base)"














section \<open>Invoices page: the listing\<close>











section \<open>The balance invariant and the constraints of the schema\<close>




definition allocations_payment_id_fkey :: "db \<Rightarrow> bool" where
  "allocations_payment_id_fkey d =
     list_all (\<lambda>a. payment_id a \<in> set (map pay_id (payments d))) (allocations d)"

section \<open>Example ledgers\<close>

definition ex_invoice :: invoice where
  "ex_invoice = \<lparr>inv_id = ''i1'', inv_number = Some ''INV-1'', hotel_id = ''h1'',
     company_id = Some ''c1'', client_id = Some ''k1'', confirmation_no = None, case_no = None,
     issue_date = 0, due_date = 30, check_in = Some 0, check_out = Some 5,
     rate_night = Some 100, subtotal = 500, tax = 0, status = ''open'', balance = 500,
     inv_deleted_at = None\<rparr>"

definition ex_alloc :: "uuid \<Rightarrow> uuid \<Rightarrow> money \<Rightarrow> allocation" where
  "ex_alloc p i x = \<lparr>payment_id = p, invoice_id = i, amount = x, al_deleted_at = None\<rparr>"

definition ex_payment :: "uuid \<Rightarrow> money \<Rightarrow> payment" where
  "ex_payment p x = \<lparr>pay_id = p, p_method = check, reference = ''1001'', pay_amount = x,
     received_date = 10, check_date = None\<rparr>"

text \<open>An open invoice of 500 with nothing paid.\<close>

definition ex_open :: db where
  "ex_open = \<lparr>invoices = [ex_invoice], payments = [], allocations = [], invoice_audit = []\<rparr>"

text \<open>The same invoice after a payment of 200 was applied to it.\<close>

definition ex_partial :: db where
  "ex_partial = \<lparr>invoices = [ex_invoice\<lparr>status := ''partial'', balance := 300\<rparr>],
     payments = [ex_payment ''p1'' 200],
     allocations = [ex_alloc ''p1'' ''i1'' 200],
     invoice_audit = []\<rparr>"

text \<open>Scenario D: two allocations of 100 and 150 from two payments.\<close>

definition scenarioD :: db where
  "scenarioD = \<lparr>invoices = [ex_invoice\<lparr>status := ''partial'', balance := 250\<rparr>],
     payments = [ex_payment ''p1'' 100, ex_payment ''p2'' 200],
     allocations = [ex_alloc ''p1'' ''i1'' 100, ex_alloc ''p2'' ''i1'' 150],
     invoice_audit = []\<rparr>"

text \<open>Scenario E: 400 paid on a total of 500.\<close>

definition scenarioE :: db where
  "scenarioE = \<lparr>invoices = [ex_invoice\<lparr>status := ''partial'', balance := 100\<rparr>],
     payments = [ex_payment ''p1'' 400],
     allocations = [ex_alloc ''p1'' ''i1'' 400],
     invoice_audit = []\<rparr>"

text \<open>A new-invoice form: three nights at 80.\<close>

definition ex_form :: invoice_form where
  "ex_form = \<lparr>v_hotel_id = ''h1'', v_company_id = ''c1'', v_client_id = ''k1'',
     v_confirmation_no = None, v_number = Some ''INV-2'', v_case_no = None,
     v_issue_date = Ymd 100, v_due_date = Ymd 130, v_check_in = Ymd 100,
     v_check_out = Ymd 103, v_rate_night = Fin 80\<rparr>"

text \<open>A payment form: a check of the given amount with its number as reference.\<close>

definition ex_pay_form :: "money \<Rightarrow> pay_form" where
  "ex_pay_form x = \<lparr>f_method = check, f_reference = Some ''1001'', f_amount = x,
     f_received_date = 10, f_check_date = None\<rparr>"

text \<open>The allocation rows \<open>onSubmit\<close> sends for a form state: the positive amounts.\<close>

definition allocationRows :: "uuid \<Rightarrow> (uuid \<times> money) list \<Rightarrow> allocation list" where
  "allocationRows newPaymentId alloc =
     filter (\<lambda>r. amount r > 0)
       (map (\<lambda>(iid, amt). \<lparr>payment_id = newPaymentId, invoice_id = iid,
                            amount = amt, al_deleted_at = None\<rparr>) alloc)"










section \<open>Total adjustment\<close>

lemma updateTotal_ok_eq:
  assumes "0 \<le> newTotal"
    and "\<exists>i\<in>set (invoices d). inv_id i = inv_id row \<and> inv_deleted_at i = None"
  shows "updateTotal row (Some (Fin newTotal)) None None d =
     (Inr TotalUpdated,
      log_invoice_event (inv_id row) ''update_total'' None
        [(''old_total'', total row), (''new_total'', newTotal)]
        (d\<lparr>invoices := map (\<lambda>i. if inv_id i = inv_id row \<and> inv_deleted_at i = None
            then i\<lparr>subtotal := newTotal, tax := 0,
                   balance := max 0 (newTotal - allocatedSum d (inv_id row)),
                   status := (if newTotal = 0 then ''void''
                     else if allocatedSum d (inv_id row) \<le> 0 then ''open''
                     else if allocatedSum d (inv_id row) < newTotal then ''partial''
                     else ''paid'')\<rparr>
            else i) (invoices d)\<rparr>))"
proof -
  have ne: "filter (\<lambda>i. inv_id i = inv_id row \<and> inv_deleted_at i = None) (invoices d) \<noteq> []"
    using assms(2) by (simp add: filter_empty_conv)
  show ?thesis
    unfolding updateTotal_def allocatedSum_def Let_def using assms(1) ne by simp
qed

lemma map_hit_ex:
  assumes "i0 \<in> set xs" "P i0" "\<And>i. P (f i) = P i"
  shows "\<exists>i\<in>set (map (\<lambda>i. if P i then f i else i) xs). P i"
proof -
  have "(if P i0 then f i0 else i0) \<in> set (map (\<lambda>i. if P i then f i else i) xs)"
    using assms(1) by (rule imageI[of i0 "set xs" "\<lambda>i. if P i then f i else i", folded set_map])
  moreover have "P (if P i0 then f i0 else i0)" using assms(2,3) by simp
  ultimately show ?thesis by (rule bexI[rotated])
qed

lemma map_hit_all:
  assumes "\<And>i. P i \<Longrightarrow> Q (f i)" "\<And>i. P (f i) = P i"
  shows "\<forall>i\<in>set (map (\<lambda>i. if P i then f i else i) xs). P i \<longrightarrow> Q i"
proof (intro ballI impI)
  fix i assume "i \<in> set (map (\<lambda>i. if P i then f i else i) xs)" and Pi: "P i"
  then obtain j where j: "j \<in> set xs" "i = (if P j then f j else j)" by auto
  show "Q i"
  proof (cases "P j")
    case True
    then show ?thesis using j assms(1) by simp
  next
    case False
    then show ?thesis using j Pi by simp
  qed
qed



text \<open>Scenario E: 500 lowered to 300 after 400 were paid gives balance 0 and status paid.\<close>

lemma scenarioE_eval:
  "updateTotal ex_invoice (Some (Fin 300)) None None scenarioE =
     (Inr TotalUpdated,
      \<lparr>invoices = [ex_invoice\<lparr>subtotal := 300, status := ''paid'', balance := 0\<rparr>],
       payments = [ex_payment ''p1'' 400],
       allocations = [ex_alloc ''p1'' ''i1'' 400],
       invoice_audit = [\<lparr>p_invoice_id = ''i1'', p_action = ''update_total'', p_note = None,
            p_details = [(''old_total'', 500), (''new_total'', 300)]\<rparr>]\<rparr>)"
  by (simp add: updateTotal_def scenarioE_def ex_invoice_def ex_alloc_def ex_payment_def
      log_invoice_event_def total_def)



section \<open>Voiding an invoice\<close>





text \<open>Scenario D: both allocations go, and the two payments regain 250 together.\<close>

lemma scenarioD_eval:
  "voidInvoice ex_invoice (Some ''duplicate booking'') None None scenarioD =
     (Inr InvoiceVoided,
      \<lparr>invoices = [ex_invoice\<lparr>subtotal := 0, status := ''void'', balance := 0\<rparr>],
       payments = [ex_payment ''p1'' 100, ex_payment ''p2'' 200],
       allocations = [],
       invoice_audit = [\<lparr>p_invoice_id = ''i1'', p_action = ''void_invoice'',
            p_note = Some ''duplicate booking'', p_details = []\<rparr>]\<rparr>)"
  by (simp add: voidInvoice_def scenarioD_def ex_invoice_def ex_alloc_def ex_payment_def
      log_invoice_event_def)

lemma scenarioD_rooms:
  "payment_room scenarioD (ex_payment ''p1'' 100) = 0"
  "payment_room scenarioD (ex_payment ''p2'' 200) = 50"
  "payment_room (snd (voidInvoice ex_invoice (Some ''duplicate booking'') None None scenarioD))
      (ex_payment ''p1'' 100) = 100"
  "payment_room (snd (voidInvoice ex_invoice (Some ''duplicate booking'') None None scenarioD))
      (ex_payment ''p2'' 200) = 200"
  unfolding scenarioD_eval
  by (simp_all add: payment_room_def payment_allocated_def scenarioD_def ex_alloc_def ex_payment_def)


section \<open>Payment deletion and the writers of the status\<close>

lemma deletePayment_ok_eq:
  "deletePayment row True None None d =
     (Inr PaymentDeleted,
      d\<lparr>allocations := filter (\<lambda>a. payment_id a \<noteq> pay_id row) (allocations d),
        payments := filter (\<lambda>p. pay_id p \<noteq> pay_id row) (payments d)\<rparr>)"
  by (simp add: deletePayment_def Let_def)

lemma deletePayment_invoices:
  "invoices (snd (deletePayment row c aErr pErr d)) = invoices d"
  by (simp add: deletePayment_def Let_def split: option.splits)

lemma onSubmit_invoices:
  "invoices (snd (onSubmit values alloc confirmed rpc aErr d)) = invoices d"
  by (simp add: onSubmit_def Let_def api_insert_payment_def split: option.splits)

lemma invoiceRow_fields:
  "inv_id (invoiceRow values new_id issue due cin cout) = new_id"
  "status (invoiceRow values new_id issue due cin cout) = ''open''"
  "tax (invoiceRow values new_id issue due cin cout) = 0"
  "0 \<le> subtotal (invoiceRow values new_id issue due cin cout)"
  "balance (invoiceRow values new_id issue due cin cout)
     = subtotal (invoiceRow values new_id issue due cin cout)"
  by (simp_all add: invoiceRow_def Let_def)

lemma onSubmit_invoice_cases:
  "snd (onSubmit_invoice values new_id error d) = d \<or>
   (\<exists>issue due cin cout. snd (onSubmit_invoice values new_id error d)
       = d\<lparr>invoices := invoices d @ [invoiceRow values new_id issue due cin cout]\<rparr>)"
  by (auto simp: onSubmit_invoice_def split: option.splits date_text.splits)

lemma handleSubmit_cases:
  "snd (handleSubmit uuid values new_id error d) = d \<or>
   (\<exists>issue due cin cout. snd (handleSubmit uuid values new_id error d)
       = d\<lparr>invoices := invoices d @ [invoiceRow values new_id issue due cin cout]\<rparr>)"
proof (cases "schema uuid values")
  case Nil
  then show ?thesis using onSubmit_invoice_cases[of "values" new_id error d]
    by (simp add: handleSubmit_def)
next
  case (Cons a list)
  then show ?thesis by (simp add: handleSubmit_def)
qed

text \<open>
  Claim C3, amended. Once the dialog is confirmed and the store reports no error,
  \<open>deletePayment\<close> succeeds whether or not the payment has live allocations: it deletes
  every allocation row of the payment, then the payment row, and writes no invoice row and
  no audit row. There is no has-allocations failure.
\<close>

theorem deletePayment_cascades:
  "fst (deletePayment row True None None d) = Inr PaymentDeleted
   \<and> allocations (snd (deletePayment row True None None d))
       = filter (\<lambda>a. payment_id a \<noteq> pay_id row) (allocations d)
   \<and> payments (snd (deletePayment row True None None d))
       = filter (\<lambda>p. pay_id p \<noteq> pay_id row) (payments d)
   \<and> invoices (snd (deletePayment row True None None d)) = invoices d
   \<and> invoice_audit (snd (deletePayment row True None None d)) = invoice_audit d"
  by (simp add: deletePayment_ok_eq)

text \<open>
  Claim C3 as stated fails: the payment has a live allocation of 200, and the deletion
  succeeds and removes both rows.
\<close>

theorem deletePayment_live_allocation_counterexample:
  "payment_allocated ex_partial ''p1'' = 200
   \<and> deletePayment (ex_payment ''p1'' 200) True None None ex_partial =
      (Inr PaymentDeleted, ex_partial\<lparr>allocations := [], payments := []\<rparr>)"
  by (simp add: deletePayment_ok_eq payment_allocated_def ex_partial_def ex_alloc_def ex_payment_def)


lemma updateTotal_ok_invoices:
  assumes "0 \<le> newTotal"
    and "\<exists>i\<in>set (invoices d). inv_id i = inv_id row \<and> inv_deleted_at i = None"
  shows "invoices (snd (updateTotal row (Some (Fin newTotal)) None None d)) =
     map (\<lambda>i. if inv_id i = inv_id row \<and> inv_deleted_at i = None
            then i\<lparr>subtotal := newTotal, tax := 0,
                   balance := max 0 (newTotal - allocatedSum d (inv_id row)),
                   status := (if newTotal = 0 then ''void''
                     else if allocatedSum d (inv_id row) \<le> 0 then ''open''
                     else if allocatedSum d (inv_id row) < newTotal then ''partial''
                     else ''paid'')\<rparr>
            else i) (invoices d)"
  unfolding updateTotal_ok_eq[OF assms] by (simp add: log_invoice_event_def)

text \<open>
  Claim C4, amended. A successful \<open>updateTotal\<close> on a live invoice writes the status void
  exactly when the new total is 0, so void is derived from a zero total and not only set
  by \<open>voidInvoice\<close>. The other writers do not set it: the record-payment form and the
  payment deletion change no invoice row, and the new-invoice form only adds a row whose
  status is open.
\<close>

theorem void_status_writers:
  "(0 \<le> newTotal \<and> (\<exists>i\<in>set (invoices d). inv_id i = inv_id row \<and> inv_deleted_at i = None)
     \<longrightarrow> fst (updateTotal row (Some (Fin newTotal)) None None d) = Inr TotalUpdated
       \<and> (\<exists>i\<in>set (invoices (snd (updateTotal row (Some (Fin newTotal)) None None d))).
             inv_id i = inv_id row \<and> inv_deleted_at i = None)
       \<and> (\<forall>i\<in>set (invoices (snd (updateTotal row (Some (Fin newTotal)) None None d))).
             inv_id i = inv_id row \<and> inv_deleted_at i = None
             \<longrightarrow> (status i = ''void'' \<longleftrightarrow> newTotal = 0)))
   \<and> invoices (snd (onSubmit values alloc confirmed rpc aErr d)) = invoices d
   \<and> invoices (snd (deletePayment prow c aErr' pErr d)) = invoices d
   \<and> (\<forall>i\<in>set (invoices (snd (handleSubmit uuid fv new_id err d))).
         i \<in> set (invoices d) \<or> status i = ''open'')"
proof (intro conjI impI)
  assume h: "0 \<le> newTotal \<and> (\<exists>i\<in>set (invoices d). inv_id i = inv_id row \<and> inv_deleted_at i = None)"
  then have le: "0 \<le> newTotal"
    and live: "\<exists>i\<in>set (invoices d). inv_id i = inv_id row \<and> inv_deleted_at i = None"
    by simp_all
  define P where "P = (\<lambda>i::invoice. inv_id i = inv_id row \<and> inv_deleted_at i = None)"
  define st where "st = (if newTotal = 0 then ''void''
                     else if allocatedSum d (inv_id row) \<le> 0 then ''open''
                     else if allocatedSum d (inv_id row) < newTotal then ''partial''
                     else ''paid'')"
  define f where "f = (\<lambda>i::invoice. i\<lparr>subtotal := newTotal, tax := 0,
                   balance := max 0 (newTotal - allocatedSum d (inv_id row)),
                   status := st\<rparr>)"
  have inv: "invoices (snd (updateTotal row (Some (Fin newTotal)) None None d))
      = map (\<lambda>i. if P i then f i else i) (invoices d)"
    unfolding updateTotal_ok_invoices[OF le live] P_def f_def st_def ..
  have Pf: "\<And>i. P (f i) = P i" by (simp add: P_def f_def)
  have st: "(st = ''void'') = (newTotal = 0)" by (simp add: st_def)
  obtain i0 where i0: "i0 \<in> set (invoices d)" "P i0" using live unfolding P_def by blast
  show "fst (updateTotal row (Some (Fin newTotal)) None None d) = Inr TotalUpdated"
    unfolding updateTotal_ok_eq[OF le live] by simp
  show "\<exists>i\<in>set (invoices (snd (updateTotal row (Some (Fin newTotal)) None None d))).
             inv_id i = inv_id row \<and> inv_deleted_at i = None"
    unfolding inv using map_hit_ex[of i0 "invoices d" P f, OF i0 Pf] unfolding P_def .
  have "\<forall>i\<in>set (map (\<lambda>i. if P i then f i else i) (invoices d)).
      P i \<longrightarrow> (status i = ''void'' \<longleftrightarrow> newTotal = 0)"
    by (rule map_hit_all) (simp add: f_def st, rule Pf)
  then show "\<forall>i\<in>set (invoices (snd (updateTotal row (Some (Fin newTotal)) None None d))).
             inv_id i = inv_id row \<and> inv_deleted_at i = None
             \<longrightarrow> (status i = ''void'' \<longleftrightarrow> newTotal = 0)"
    unfolding inv P_def .
next
  show "invoices (snd (onSubmit values alloc confirmed rpc aErr d)) = invoices d"
    by (rule onSubmit_invoices)
next
  show "invoices (snd (deletePayment prow c aErr' pErr d)) = invoices d"
    by (rule deletePayment_invoices)
next
  show "\<forall>i\<in>set (invoices (snd (handleSubmit uuid fv new_id err d))).
         i \<in> set (invoices d) \<or> status i = ''open''"
  proof
    fix i assume i: "i \<in> set (invoices (snd (handleSubmit uuid fv new_id err d)))"
    from handleSubmit_cases[of uuid fv new_id err d]
    show "i \<in> set (invoices d) \<or> status i = ''open''"
    proof
      assume "snd (handleSubmit uuid fv new_id err d) = d"
      then show ?thesis using i by simp
    next
      assume "\<exists>issue due cin cout. snd (handleSubmit uuid fv new_id err d)
          = d\<lparr>invoices := invoices d @ [invoiceRow fv new_id issue due cin cout]\<rparr>"
      then obtain issue due cin cout where
        "snd (handleSubmit uuid fv new_id err d)
          = d\<lparr>invoices := invoices d @ [invoiceRow fv new_id issue due cin cout]\<rparr>" by blast
      then have "i \<in> set (invoices d) \<or> i = invoiceRow fv new_id issue due cin cout"
        using i by auto
      then show ?thesis using invoiceRow_fields(2) by blast
    qed
  qed
qed

text \<open>
  Claim C4 as stated fails: 200 are paid on the invoice, no \<open>voidInvoice\<close> runs, and
  \<open>updateTotal\<close> with a new total of 0 writes the status void.
\<close>

theorem updateTotal_zero_sets_void_counterexample:
  "map status (invoices ex_partial) = [''partial'']
   \<and> fst (updateTotal ex_invoice (Some (Fin 0)) None None ex_partial) = Inr TotalUpdated
   \<and> map status (invoices (snd (updateTotal ex_invoice (Some (Fin 0)) None None ex_partial)))
        = [''void'']"
  by (simp add: updateTotal_def ex_partial_def ex_invoice_def ex_alloc_def log_invoice_event_def)

theorem void_status_writers_witness:
  "(0::rat) \<le> 0
   \<and> (\<exists>i\<in>set (invoices ex_open). inv_id i = inv_id ex_invoice \<and> inv_deleted_at i = None)
   \<and> fst (updateTotal ex_invoice (Some (Fin 0)) None None ex_open) = Inr TotalUpdated
   \<and> map status (invoices (snd (updateTotal ex_invoice (Some (Fin 0)) None None ex_open)))
       = [''void'']
   \<and> map status (invoices (snd (handleSubmit (\<lambda>s. s \<noteq> []) ex_form ''i2'' None ex_open)))
       = [''open'', ''open'']"
proof -
  have h: "(0::rat) \<le> 0
     \<and> (\<exists>i\<in>set (invoices ex_open). inv_id i = inv_id ex_invoice \<and> inv_deleted_at i = None)"
    by (simp add: ex_open_def ex_invoice_def)
  note w = void_status_writers[of 0 ex_open ex_invoice undefined undefined undefined undefined
      undefined undefined undefined undefined undefined "\<lambda>s. s \<noteq> []" ex_form "''i2''" None]
  have u: "map status (invoices (snd (updateTotal ex_invoice (Some (Fin 0)) None None ex_open)))
       = [''void'']"
    by (simp add: updateTotal_def ex_open_def ex_invoice_def log_invoice_event_def)
  have n: "map status (invoices (snd (handleSubmit (\<lambda>s. s \<noteq> []) ex_form ''i2'' None ex_open)))
       = [''open'', ''open'']"
    by (simp add: handleSubmit_def schema_def ex_form_def onSubmit_invoice_def ex_open_def
        ex_invoice_def invoiceRow_fields)
  show ?thesis using h w u n by simp
qed

section \<open>The balance invariant\<close>

















section \<open>Recording a payment\<close>

lemma fold_plus_sum_list:
  fixes xs :: "rat list"
  shows "fold (\<lambda>v s. s + v) xs a = a + sum_list xs"
  by (induction xs arbitrary: a) simp_all

lemma allocatedTotal_sum: "allocatedTotal alloc = sum_list (map snd alloc)"
  by (simp add: allocatedTotal_def fold_plus_sum_list)

lemma onSubmit_rejects:
  assumes "allocatedTotal alloc > f_amount values + 1 / 1000000"
  shows "onSubmit values alloc confirmed rpc aErr d = (Inl AllocatedMoreThanPayment, d)"
  using assms by (simp add: onSubmit_def Let_def)

lemma onSubmit_saved:
  assumes "allocatedTotal alloc \<le> f_amount values + 1 / 1000000"
  shows "onSubmit values alloc True (Some pid) None d =
     (Inr PaymentSaved,
      (api_insert_payment values pid d)\<lparr>allocations := allocations d @ allocationRows pid alloc\<rparr>)"
proof -
  have n: "\<not> allocatedTotal alloc > f_amount values + 1 / 1000000" using assms by simp
  show ?thesis
  proof (cases "allocationRows pid alloc = []")
    case True
    have "(api_insert_payment values pid d)\<lparr>allocations := allocations d @ []\<rparr>
        = api_insert_payment values pid d"
      by (simp add: api_insert_payment_def)
    then show ?thesis using n True
      by (simp add: onSubmit_def Let_def allocationRows_def)
  next
    case False
    then show ?thesis using n
      by (simp add: onSubmit_def Let_def allocationRows_def api_insert_payment_def)
  qed
qed









section \<open>Over-allocation\<close>

lemma setAllocFor_value:
  "map_of (setAllocFor invs iid v alloc) iid =
     Some (min (max 0 (case v of Fin raw \<Rightarrow> raw | NotFinite \<Rightarrow> 0))
               (case byId invs iid of Some i \<Rightarrow> balance i | None \<Rightarrow> 0))"
proof -
  have "\<And>x. map_of (AList.update iid x alloc) iid = Some x"
    by (simp add: update_conv')
  then show ?thesis
    by (simp add: setAllocFor_def Let_def min_def max_def)
qed

lemma onSubmit_success:
  assumes "fst (onSubmit values alloc confirmed (Some pid) aErr d) = Inr PaymentSaved"
  shows "allocatedTotal alloc \<le> f_amount values + 1 / 1000000
     \<and> allocations (snd (onSubmit values alloc confirmed (Some pid) aErr d))
         = allocations d @ allocationRows pid alloc"
proof -
  have n: "\<not> allocatedTotal alloc > f_amount values + 1 / 1000000"
    using assms by (auto simp: onSubmit_def Let_def)
  have "allocations (snd (onSubmit values alloc confirmed (Some pid) aErr d))
         = allocations d @ allocationRows pid alloc"
  proof (cases "allocationRows pid alloc = []")
    case True
    then show ?thesis using assms n
      by (simp add: onSubmit_def Let_def allocationRows_def api_insert_payment_def
          split: if_splits)
  next
    case False
    then show ?thesis using assms n
      by (simp add: onSubmit_def Let_def allocationRows_def api_insert_payment_def
          split: if_splits option.splits)
  qed
  then show ?thesis using n by simp
qed

lemma sum_allocationRows:
  "sum_list (map amount (allocationRows pid alloc))
     = sum_list (filter (\<lambda>x. x > 0) (map snd alloc))"
  by (induction alloc) (auto simp: allocationRows_def)

lemma sum_filter_pos:
  fixes xs :: "rat list"
  assumes "list_all (\<lambda>x. 0 \<le> x) xs"
  shows "sum_list (filter (\<lambda>x. x > 0) xs) = sum_list xs"
  using assms by (induction xs) auto

lemma allocationRows_own:
  "filter (\<lambda>a. payment_id a = pid \<and> al_deleted_at a = None) (allocationRows pid alloc)
     = allocationRows pid alloc"
  by (induction alloc) (auto simp: allocationRows_def)

lemma payment_allocated_new:
  assumes nonneg: "list_all (\<lambda>(k, x). 0 \<le> x) alloc"
    and fresh: "pid \<notin> set (map payment_id (allocations d))"
    and al: "allocations d' = allocations d @ allocationRows pid alloc"
  shows "payment_allocated d' pid = allocatedTotal alloc"
proof -
  have old: "filter (\<lambda>a. payment_id a = pid \<and> al_deleted_at a = None) (allocations d) = []"
    using fresh by (auto simp: filter_empty_conv)
  have nn: "list_all (\<lambda>x. 0 \<le> x) (map snd alloc)"
    using nonneg by (induction alloc) auto
  have "payment_allocated d' pid = sum_list (map amount (allocationRows pid alloc))"
    unfolding payment_allocated_def al by (simp add: old allocationRows_own)
  also have "\<dots> = sum_list (map snd alloc)"
    unfolding sum_allocationRows using sum_filter_pos[OF nn] .
  finally show ?thesis by (simp add: allocatedTotal_sum)
qed

text \<open>
  Claim C7, amended. On submit, a request whose allocated total exceeds the payment amount
  by more than 1e-6 is rejected and nothing is written. The invoice side is not checked on
  submit: the form clamps each typed amount into the range from 0 to the invoice's listed
  balance. After a successful submit with non-negative amounts, the new payment's
  allocations sum to at most the payment amount plus 1e-6.
\<close>

theorem overallocation_checks:
  "(allocatedTotal alloc > f_amount values + 1 / 1000000
      \<longrightarrow> onSubmit values alloc confirmed rpc aErr d = (Inl AllocatedMoreThanPayment, d))
   \<and> map_of (setAllocFor invs iid v alloc) iid =
       Some (min (max 0 (case v of Fin raw \<Rightarrow> raw | NotFinite \<Rightarrow> 0))
                 (case byId invs iid of Some i \<Rightarrow> balance i | None \<Rightarrow> 0))
   \<and> (list_all (\<lambda>(k, x). 0 \<le> x) alloc
        \<and> pid \<notin> set (map payment_id (allocations d))
        \<and> fst (onSubmit values alloc confirmed (Some pid) aErr d) = Inr PaymentSaved
      \<longrightarrow> payment_allocated (snd (onSubmit values alloc confirmed (Some pid) aErr d)) pid
            \<le> f_amount values + 1 / 1000000)"
proof (intro conjI impI)
  assume "allocatedTotal alloc > f_amount values + 1 / 1000000"
  then show "onSubmit values alloc confirmed rpc aErr d = (Inl AllocatedMoreThanPayment, d)"
    by (rule onSubmit_rejects)
next
  show "map_of (setAllocFor invs iid v alloc) iid =
       Some (min (max 0 (case v of Fin raw \<Rightarrow> raw | NotFinite \<Rightarrow> 0))
                 (case byId invs iid of Some i \<Rightarrow> balance i | None \<Rightarrow> 0))"
    by (rule setAllocFor_value)
next
  assume h: "list_all (\<lambda>(k, x). 0 \<le> x) alloc
        \<and> pid \<notin> set (map payment_id (allocations d))
        \<and> fst (onSubmit values alloc confirmed (Some pid) aErr d) = Inr PaymentSaved"
  then have ok: "fst (onSubmit values alloc confirmed (Some pid) aErr d) = Inr PaymentSaved"
    and nonneg: "list_all (\<lambda>(k, x). 0 \<le> x) alloc"
    and fresh: "pid \<notin> set (map payment_id (allocations d))" by simp_all
  from onSubmit_success[OF ok]
  have le: "allocatedTotal alloc \<le> f_amount values + 1 / 1000000"
    and al: "allocations (snd (onSubmit values alloc confirmed (Some pid) aErr d))
         = allocations d @ allocationRows pid alloc" by simp_all
  show "payment_allocated (snd (onSubmit values alloc confirmed (Some pid) aErr d)) pid
            \<le> f_amount values + 1 / 1000000"
    unfolding payment_allocated_new[OF nonneg fresh al] by (rule le)
qed


text \<open>
  Claim C7 as stated fails twice. An amount of 700 typed against an invoice with balance
  500 is clamped to 500 and submitted, not rejected. And an allocation exceeding the
  payment amount by half of 1e-6 passes the check, so the payment's allocations sum to
  more than its amount.
\<close>

theorem overallocation_clamped_counterexample:
  "setAllocFor (loadInvoices None ex_open) ''i1'' (Fin 700) [] = [(''i1'', 500)]
   \<and> fst (onSubmit (ex_pay_form 500) [(''i1'', 500)] True (Some ''p9'') None ex_open)
       = Inr PaymentSaved
   \<and> fst (onSubmit (ex_pay_form 100) [(''i1'', 100 + 1 / 2000000)] True (Some ''p9'') None ex_open)
       = Inr PaymentSaved
   \<and> payment_allocated
        (snd (onSubmit (ex_pay_form 100) [(''i1'', 100 + 1 / 2000000)] True (Some ''p9'') None ex_open))
        ''p9'' > f_amount (ex_pay_form 100)"
proof -
  have a: "setAllocFor (loadInvoices None ex_open) ''i1'' (Fin 700) [] = [(''i1'', 500)]"
    by (simp add: setAllocFor_def loadInvoices_def byId_def ex_open_def ex_invoice_def Let_def)
  have b: "fst (onSubmit (ex_pay_form 500) [(''i1'', 500)] True (Some ''p9'') None ex_open)
       = Inr PaymentSaved"
    by (simp add: onSubmit_def Let_def allocatedTotal_def ex_pay_form_def)
  have c: "onSubmit (ex_pay_form 100) [(''i1'', 100 + 1 / 2000000)] True (Some ''p9'') None ex_open
       = (Inr PaymentSaved,
          (api_insert_payment (ex_pay_form 100) ''p9'' ex_open)\<lparr>allocations :=
             allocations ex_open @ allocationRows ''p9'' [(''i1'', 100 + 1 / 2000000)]\<rparr>)"
    by (rule onSubmit_saved) (simp add: allocatedTotal_def ex_pay_form_def)
  have d: "payment_allocated
        (snd (onSubmit (ex_pay_form 100) [(''i1'', 100 + 1 / 2000000)] True (Some ''p9'') None ex_open))
        ''p9'' > f_amount (ex_pay_form 100)"
    unfolding c
    by (simp add: payment_allocated_def allocationRows_def ex_open_def ex_pay_form_def)
  show ?thesis using a b c d by simp
qed

theorem overallocation_checks_witness:
  "allocatedTotal [(''i1'', 300)] > f_amount (ex_pay_form 200) + 1 / 1000000
   \<and> onSubmit (ex_pay_form 200) [(''i1'', 300)] True (Some ''p9'') None ex_open
       = (Inl AllocatedMoreThanPayment, ex_open)
   \<and> list_all (\<lambda>(k, x). 0 \<le> x) [(''i1'', 200::rat)]
   \<and> ''p9'' \<notin> set (map payment_id (allocations ex_open))
   \<and> fst (onSubmit (ex_pay_form 200) [(''i1'', 200)] True (Some ''p9'') None ex_open)
       = Inr PaymentSaved
   \<and> payment_allocated
        (snd (onSubmit (ex_pay_form 200) [(''i1'', 200)] True (Some ''p9'') None ex_open)) ''p9''
       \<le> f_amount (ex_pay_form 200) + 1 / 1000000"
proof -
  have h1: "allocatedTotal [(''i1'', 300)] > f_amount (ex_pay_form 200) + 1 / 1000000"
    by (simp add: allocatedTotal_def ex_pay_form_def)
  have h2: "list_all (\<lambda>(k, x). 0 \<le> x) [(''i1'', 200::rat)]" by simp
  have h3: "''p9'' \<notin> set (map payment_id (allocations ex_open))" by (simp add: ex_open_def)
  have h4: "fst (onSubmit (ex_pay_form 200) [(''i1'', 200)] True (Some ''p9'') None ex_open)
       = Inr PaymentSaved"
    by (simp add: onSubmit_def Let_def allocatedTotal_def ex_pay_form_def)
  note w1 = overallocation_checks[of "ex_pay_form 200" "[(''i1'', 300)]" True "Some ''p9''" None
      ex_open "[]" "''i1''" NotFinite "''p9''", THEN conjunct1, rule_format, OF h1]
  note w2 = overallocation_checks[of "ex_pay_form 200" "[(''i1'', 200)]" True "Some ''p9''" None
      ex_open "[]" "''i1''" NotFinite "''p9''", THEN conjunct2, THEN conjunct2, rule_format,
      OF conjI[OF h2 conjI[OF h3 h4]]]
  show ?thesis using h1 w1 h2 h3 h4 w2 by (intro conjI)
qed

section \<open>Creating an invoice\<close>









section \<open>The invoice listing\<close>







section \<open>The aging report\<close>












lemma filter_snoc_other:
  "\<not> P x \<Longrightarrow> filter P (rows @ [x]) = filter P rows"
  by simp

























































end
